theory Spec2Isabelle
  imports Complex_Main "HOL-Library.Sublist"
begin

section \<open>JavaScript values and strings\<close>

text \<open>
  JavaScript numbers that the handlers treat as counts, identifiers and sizes are modelled
  as mathematical integers (\<open>nat\<close> or \<open>int\<close>); the rounding of IEEE doubles is not
  modelled. A number placed in a template literal is printed in decimal.
\<close>

fun show_nat :: "nat \<Rightarrow> string" where
  "show_nat n = (if n < 10 then [''0123456789'' ! n]
                 else show_nat (n div 10) @ [''0123456789'' ! (n mod 10)])"

declare show_nat.simps [simp del]

definition show_int :: "int \<Rightarrow> string" where
  "show_int i = (if i < 0 then CHR ''-'' # show_nat (nat (- i)) else show_nat (nat i))"

text \<open>\<open>a || b\<close> on strings: the empty string is falsy.\<close>

definition or_else :: "string \<Rightarrow> string \<Rightarrow> string" where
  "or_else a b = (if a = [] then b else a)"

text \<open>\<open>Array.prototype.join\<close> on an array of strings.\<close>

fun join :: "string \<Rightarrow> string list \<Rightarrow> string" where
  "join sep [] = []"
| "join sep [x] = x"
| "join sep (x # y # ys) = x @ sep @ join sep (y # ys)"

text \<open>
  JSON values. \<open>JRaw x\<close> is a descriptor \<open>x\<close> received from the provider and
  serialized again as it came.
\<close>

datatype 'r json =
    JRaw 'r
  | JNull
  | JBool bool
  | JNum int
  | JStr string
  | JArr "'r json list"
  | JObj "(string \<times> 'r json) list"

text \<open>
  Property assignment \<open>obj.key = v\<close> on an object kept in insertion order: an existing
  key keeps its place, a new key goes last.
\<close>

fun obj_set :: "(string \<times> 'v) list \<Rightarrow> string \<Rightarrow> 'v \<Rightarrow> (string \<times> 'v) list" where
  "obj_set [] k v = [(k, v)]"
| "obj_set ((k', v') # kvs) k v =
     (if k' = k then (k, v) # kvs else (k', v') # obj_set kvs k v)"

section \<open>constants.ts\<close>

definition API_BASE_URL :: string where
  "API_BASE_URL = ''https://api.timeweb.cloud''"

definition DEFAULT_LIMIT :: int where
  "DEFAULT_LIMIT = 50"

definition MAX_LIMIT :: int where
  "MAX_LIMIT = 100"

definition REQUEST_TIMEOUT :: nat where
  "REQUEST_TIMEOUT = 30000"

section \<open>services/api.ts: errors and the error translator\<close>

text \<open>The \<open>message\<close> member of an error response body: absent, a string or an array.\<close>

datatype message_field = NoMessage | MessageString string | MessageArray "string list"

record error_response =
  status :: nat
  data_message :: message_field

text \<open>
  What a failed call throws: an \<open>AxiosError\<close> with its optional response, its optional
  \<open>code\<close> and its message; another \<open>Error\<close> with its message; or a value that is not
  an \<open>Error\<close>, with \<open>String(value)\<close>.
\<close>

datatype js_error =
    AxiosError "error_response option" "string option" string
  | Error string
  | Thrown string

definition response_message :: "message_field \<Rightarrow> string" where
  "response_message m =
     (case m of
        NoMessage \<Rightarrow> ''''
      | MessageString s \<Rightarrow> s
      | MessageArray xs \<Rightarrow> join '', '' xs)"

fun handleApiError :: "js_error \<Rightarrow> string" where
  "handleApiError (AxiosError (Some r) code msg) =
     (let message = response_message (data_message r) in
      if status r = 400 then
        ''Error: Bad request. '' @ or_else message ''Please check your parameters.''
      else if status r = 401 then
        ''Error: Authentication failed. Please check your API token.''
      else if status r = 403 then
        ''Error: Permission denied. '' @ or_else message ''You don't have access to this resource.''
      else if status r = 404 then
        ''Error: Resource not found. '' @ or_else message ''Please check the ID is correct.''
      else if status r = 409 then
        ''Error: Conflict. '' @ or_else message ''The request conflicts with the current state.''
      else if status r = 423 then
        ''Error: Resource locked. '' @ or_else message ''The resource is locked from this operation.''
      else if status r = 429 then
        ''Error: Rate limit exceeded. Please wait before making more requests.''
      else if status r = 500 then
        ''Error: Internal server error. '' @ or_else message ''Please try again later or contact support.''
      else
        ''Error: API request failed with status '' @ show_nat (status r) @ ''. '' @ message)"
| "handleApiError (AxiosError None code msg) =
     (if code = Some ''ECONNABORTED'' then
        ''Error: Request timed out. Please try again.''
      else if code = Some ''ENOTFOUND'' then
        ''Error: Could not connect to Timeweb Cloud API. Check your network connection.''
      else ''Error: Unexpected error occurred: '' @ msg)"
| "handleApiError (Error msg) = ''Error: Unexpected error occurred: '' @ msg"
| "handleApiError (Thrown s) = ''Error: Unexpected error occurred: '' @ s"

section \<open>services/api.ts: value formatters\<close>

definition sizes :: "string list" where
  "sizes = [''B'', ''KB'', ''MB'', ''GB'', ''TB'']"

text \<open>
  \<open>Math.floor(Math.log(bytes) / Math.log(k))\<close> for a positive integer \<open>bytes\<close>: how
  often \<open>bytes\<close> can be divided by \<open>k\<close> before it drops below \<open>k\<close>
  (lemma \<open>floor_log_k_is_floor_log\<close> below relates it to the real logarithm).
\<close>

fun floor_log_k :: "nat \<Rightarrow> nat \<Rightarrow> nat" where
  "floor_log_k k n = (if k < 2 \<or> n < k then 0 else Suc (floor_log_k k (n div k)))"

declare floor_log_k.simps [simp del]

text \<open>
  \<open>(bytes / d).toFixed(2)\<close>, as a number of hundredths: the integer \<open>n\<close> for which
  \<open>n / 100\<close> is nearest to \<open>bytes / d\<close>, the larger one on a tie
  (lemma \<open>toFixed2_is_rounding\<close> below).
\<close>

definition toFixed2 :: "nat \<Rightarrow> nat \<Rightarrow> nat" where
  "toFixed2 bytes d = (200 * bytes + d) div (2 * d)"

text \<open>
  \<open>parseFloat(s) + " "\<close> for the two-decimal string \<open>s\<close> of \<open>n\<close> hundredths: the number
  is printed without trailing zeros.
\<close>

definition show_hundredths :: "nat \<Rightarrow> string" where
  "show_hundredths n =
     (let w = n div 100; f = n mod 100 in
      if f = 0 then show_nat w
      else if f mod 10 = 0 then show_nat w @ ''.'' @ show_nat (f div 10)
      else show_nat w @ ''.'' @ show_nat (f div 10) @ show_nat (f mod 10))"

text \<open>\<open>sizes[i]\<close> in a string concatenation: past the end of the array it is \<open>undefined\<close>.\<close>

definition size_unit :: "nat \<Rightarrow> string" where
  "size_unit i = (if i < length sizes then sizes ! i else ''undefined'')"

definition formatBytes :: "nat \<Rightarrow> string" where
  "formatBytes bytes =
     (if bytes = 0 then ''0 B''
      else
        let k = 1024;
            i = floor_log_k k bytes
        in show_hundredths (toFixed2 bytes (k ^ i)) @ '' '' @ size_unit i)"

definition currentPage :: "int \<Rightarrow> int \<Rightarrow> int" where
  "currentPage limit offset = \<lfloor>real_of_int offset / real_of_int limit\<rfloor> + 1"

definition totalPages :: "int \<Rightarrow> int \<Rightarrow> int" where
  "totalPages tot limit = \<lceil>real_of_int tot / real_of_int limit\<rceil>"

definition hasMore :: "int \<Rightarrow> int \<Rightarrow> int \<Rightarrow> bool" where
  "hasMore tot limit offset \<longleftrightarrow> offset + limit < tot"

definition more_results_note :: string where
  "more_results_note = CHR 0x0A # ''*Use offset parameter to see more results.*''"

definition buildPaginationResponse :: "int \<Rightarrow> int \<Rightarrow> int \<Rightarrow> string" where
  "buildPaginationResponse tot limit offset =
     ''Showing '' @ show_int (offset + 1) @ ''-'' @ show_int (min (offset + limit) tot)
       @ '' of '' @ show_int tot
       @ '' items (Page '' @ show_int (currentPage limit offset)
       @ ''/'' @ show_int (totalPages tot limit) @ '')''
       @ (if hasMore tot limit offset then more_results_note else '''')"

section \<open>services/api.ts: the client\<close>

datatype http_method = GET | POST | PUT | PATCH | DELETE

record client =
  baseURL :: string
  timeout :: nat
  headers :: "(string \<times> string) list"

record 'r request_config =
  req_method :: http_method
  url :: string
  params :: "(string \<times> 'r json) list option"
  data :: "'r json option"

text \<open>
  The module state: the client singleton (\<open>null\<close> until initialized). \<open>sent\<close> is the
  record of the network: every request handed to \<open>client.request\<close>, oldest first, with
  the client that carried it.
\<close>

record 'r api_state =
  apiClient :: "client option"
  sent :: "(client \<times> 'r request_config) list"

definition initializeApiClient :: "string \<Rightarrow> 'r api_state \<Rightarrow> 'r api_state" where
  "initializeApiClient token st =
     st\<lparr>apiClient := Some
       \<lparr>baseURL = API_BASE_URL,
        timeout = REQUEST_TIMEOUT,
        headers = [(''Content-Type'', ''application/json''),
                   (''Accept'', ''application/json''),
                   (''Authorization'', ''Bearer '' @ token)]\<rparr>\<rparr>"

definition getApiClient :: "'r api_state \<Rightarrow> js_error + client" where
  "getApiClient st =
     (case apiClient st of
        None \<Rightarrow> Inl (Error ''API client not initialized. Set TIMEWEB_CLOUD_TOKEN environment variable.'')
      | Some c \<Rightarrow> Inr c)"

text \<open>
  The provider behind the client is a parameter: \<open>backend config\<close> is the parsed body of
  the response, or the failure that \<open>client.request\<close> throws. A thrown failure is the
  \<open>Inl\<close> of the result.
\<close>

definition makeApiRequest ::
  "('r request_config \<Rightarrow> js_error + 'a) \<Rightarrow> http_method \<Rightarrow> string
     \<Rightarrow> (string \<times> 'r json) list option \<Rightarrow> 'r json option
     \<Rightarrow> 'r api_state \<Rightarrow> (js_error + 'a) \<times> 'r api_state" where
  "makeApiRequest backend m endpoint ps d st =
     (case getApiClient st of
        Inl e \<Rightarrow> (Inl e, st)
      | Inr c \<Rightarrow>
          let config = \<lparr>req_method = m, url = endpoint, params = ps, data = d\<rparr>
          in (backend config, st\<lparr>sent := sent st @ [(c, config)]\<rparr>))"

section \<open>types.ts and the tool results\<close>

datatype ResponseFormat = MARKDOWN | JSON

text \<open>
  The text of a tool result: a string built by the handler, or
  \<open>JSON.stringify(v, null, 2)\<close> of a value \<open>v\<close>, kept as the value.
\<close>

datatype 'r content = Text string | Stringified "'r json"

text \<open>\<open>x || d\<close> on an optional number: \<open>undefined\<close> and \<open>0\<close> are falsy.\<close>

definition num_or :: "int option \<Rightarrow> int \<Rightarrow> int" where
  "num_or x d = (case x of None \<Rightarrow> d | Some n \<Rightarrow> if n = 0 then d else n)"

text \<open>\<open>x || d\<close> on an optional string: \<open>undefined\<close>, \<open>null\<close> and \<open>""\<close> are falsy.\<close>

definition str_or :: "string option \<Rightarrow> string \<Rightarrow> string" where
  "str_or x d = (case x of None \<Rightarrow> d | Some s \<Rightarrow> or_else s d)"

definition format_or_markdown :: "ResponseFormat option \<Rightarrow> ResponseFormat" where
  "format_or_markdown f = (case f of None \<Rightarrow> MARKDOWN | Some x \<Rightarrow> x)"

definition nl :: string where
  "nl = [CHR 0x0A]"

text \<open>The descriptors, with the members that the formatters read.\<close>

record os_ref =
  os_name :: string
  os_version :: "string option"

record configurator =
  cfg_cpu :: nat
  cfg_ram :: nat
  cfg_disk :: nat

record server =
  srv_id :: nat
  srv_name :: string
  srv_status :: string
  srv_location :: string
  srv_os :: "os_ref option"
  srv_configurator :: "configurator option"
  srv_cpu :: nat
  srv_ram :: nat
  srv_main_ipv4 :: "string option"
  srv_bandwidth :: "nat option"
  srv_created_at :: string

record database_cluster =
  db_id :: nat
  db_name :: string
  db_type :: string
  db_status :: string
  db_location :: string
  db_host :: "string option"
  db_port :: nat
  db_admin_login :: "string option"
  db_created_at :: string

record os_image =
  img_id :: nat
  img_name :: string
  img_version :: "string option"

text \<open>
  The body of a list response: the collection member (\<open>servers\<close>, \<open>dbs\<close>, \<open>os\<close>),
  which may be missing, and \<open>meta?.total\<close>.
\<close>

record 'a list_response =
  collection :: "'a list option"
  meta_total :: "int option"

record list_args =
  arg_limit :: "int option"
  arg_offset :: "int option"
  arg_format :: "ResponseFormat option"

text \<open>
  The expressions that every paginated list handler starts with:
  \<open>Math.min(args.limit || DEFAULT_LIMIT, MAX_LIMIT)\<close>, \<open>args.offset || 0\<close>,
  \<open>response.servers || []\<close> and \<open>response.meta?.total || servers.length\<close>.
\<close>

definition page_limit :: "list_args \<Rightarrow> int" where
  "page_limit args = min (num_or (arg_limit args) DEFAULT_LIMIT) MAX_LIMIT"

definition page_offset :: "list_args \<Rightarrow> int" where
  "page_offset args = num_or (arg_offset args) 0"

definition response_items :: "'a list_response \<Rightarrow> 'a list" where
  "response_items response = (case collection response of None \<Rightarrow> [] | Some xs \<Rightarrow> xs)"

definition response_total :: "'a list_response \<Rightarrow> int" where
  "response_total response =
     num_or (meta_total response) (int (length (response_items response)))"

section \<open>tools/servers.ts\<close>

definition formatServer :: "server \<Rightarrow> string" where
  "formatServer srv =
     ''## '' @ srv_name srv @ '' (ID: '' @ show_nat (srv_id srv) @ '')'' @ nl
     @ ''- **Status:** '' @ srv_status srv @ nl
     @ ''- **Location:** '' @ srv_location srv @ nl
     @ ''- **OS:** '' @ str_or (map_option os_name (srv_os srv)) ''N/A''
         @ '' '' @ str_or (Option.bind (srv_os srv) os_version) '''' @ nl
     @ ''- **CPU:** ''
         @ (case srv_configurator srv of
              Some c \<Rightarrow>
                if cfg_cpu c \<noteq> 0 then show_nat (cfg_cpu c)
                else if srv_cpu srv \<noteq> 0 then show_nat (srv_cpu srv) else ''N/A''
            | None \<Rightarrow> if srv_cpu srv \<noteq> 0 then show_nat (srv_cpu srv) else ''N/A'')
         @ '' cores'' @ nl
     @ ''- **RAM:** ''
         @ (case srv_configurator srv of
              Some c \<Rightarrow>
                if cfg_ram c \<noteq> 0 then formatBytes (cfg_ram c * 1024 * 1024)
                else formatBytes (srv_ram srv * 1024 * 1024)
            | None \<Rightarrow> formatBytes (srv_ram srv * 1024 * 1024)) @ nl
     @ ''- **Disk:** ''
         @ (case srv_configurator srv of
              Some c \<Rightarrow>
                if cfg_disk c \<noteq> 0 then formatBytes (cfg_disk c * 1024 * 1024) else ''N/A''
            | None \<Rightarrow> ''N/A'') @ nl
     @ ''- **Main IP:** '' @ str_or (srv_main_ipv4 srv) ''N/A'' @ nl
     @ ''- **Bandwidth:** ''
         @ (case srv_bandwidth srv of
              Some b \<Rightarrow> if b \<noteq> 0 then formatBytes b @ ''/s'' else ''N/A''
            | None \<Rightarrow> ''N/A'') @ nl
     @ ''- **Created:** '' @ srv_created_at srv"

definition timeweb_list_servers ::
  "(server request_config \<Rightarrow> js_error + server list_response) \<Rightarrow> list_args
     \<Rightarrow> server api_state \<Rightarrow> (js_error + server content) \<times> server api_state" where
  "timeweb_list_servers backend args st =
     (let limit = page_limit args;
          offset = page_offset args;
          format = format_or_markdown (arg_format args)
      in case makeApiRequest backend GET ''/api/v1/servers''
                (Some [(''limit'', JNum limit), (''offset'', JNum offset)]) None st of
           (Inl e, st') \<Rightarrow> (Inl e, st')
         | (Inr response, st') \<Rightarrow>
             let servers = response_items response;
                 tot = response_total response
             in if format = JSON then
                  (Inr (Stringified (JObj [(''servers'', JArr (map JRaw servers)),
                                           (''total'', JNum tot),
                                           (''limit'', JNum limit),
                                           (''offset'', JNum offset)])), st')
                else if length servers = 0 then
                  (Inr (Text ''No servers found.''), st')
                else
                  (Inr (Text (''# Cloud Servers'' @ nl @ nl
                              @ buildPaginationResponse tot limit offset @ nl @ nl
                              @ join (nl @ nl) (map formatServer servers))), st'))"

record format_args =
  only_format :: "ResponseFormat option"

definition timeweb_list_os ::
  "(os_image request_config \<Rightarrow> js_error + os_image list_response) \<Rightarrow> format_args
     \<Rightarrow> os_image api_state \<Rightarrow> (js_error + os_image content) \<times> os_image api_state" where
  "timeweb_list_os backend args st =
     (let format = format_or_markdown (only_format args)
      in case makeApiRequest backend GET ''/api/v1/os/servers'' None None st of
           (Inl e, st') \<Rightarrow> (Inl e, st')
         | (Inr response, st') \<Rightarrow>
             let images = response_items response
             in if format = JSON then
                  (Inr (Stringified (JArr (map JRaw images))), st')
                else if length images = 0 then
                  (Inr (Text ''No OS images found.''), st')
                else
                  (Inr (Text (''# Available Operating Systems'' @ nl @ nl
                              @ join nl (map (\<lambda>os. ''- **'' @ img_name os @ ''** (ID: ''
                                                     @ show_nat (img_id os) @ '') - ''
                                                     @ str_or (img_version os) ''latest'')
                                              images))), st'))"

text \<open>The body that the create-server handler assembles.\<close>

record create_server_args =
  cs_name :: string
  cs_os_id :: int
  cs_preset_id :: "int option"
  cs_cpu :: "int option"
  cs_ram :: "int option"
  cs_disk :: "int option"
  cs_bandwidth :: "int option"
  cs_location :: "string option"
  cs_ssh_keys_ids :: "int list option"
  cs_is_ddos_guard :: "bool option"
  cs_format :: "ResponseFormat option"

text \<open>\<open>if (x) body.key = x\<close> for an optional number and for an optional string.\<close>

definition set_if_num :: "string \<Rightarrow> int option \<Rightarrow> (string \<times> 'r json) list \<Rightarrow> (string \<times> 'r json) list" where
  "set_if_num key x body =
     (case x of None \<Rightarrow> body | Some n \<Rightarrow> if n = 0 then body else obj_set body key (JNum n))"

definition set_if_str :: "string \<Rightarrow> string option \<Rightarrow> (string \<times> 'r json) list \<Rightarrow> (string \<times> 'r json) list" where
  "set_if_str key x body =
     (case x of None \<Rightarrow> body | Some s \<Rightarrow> if s = [] then body else obj_set body key (JStr s))"

text \<open>
  \<open>if (x) body.configurator = { ...(body.configurator || {}), key: x }\<close>.
\<close>

definition set_configurator :: "string \<Rightarrow> int option \<Rightarrow> (string \<times> 'r json) list \<Rightarrow> (string \<times> 'r json) list" where
  "set_configurator key x body =
     (case x of
        None \<Rightarrow> body
      | Some n \<Rightarrow>
          if n = 0 then body
          else obj_set body ''configurator''
                 (JObj (obj_set (case map_of body ''configurator'' of
                                   Some (JObj kvs) \<Rightarrow> kvs
                                 | _ \<Rightarrow> [])
                          key (JNum n))))"

definition create_server_body :: "create_server_args \<Rightarrow> (string \<times> 'r json) list" where
  "create_server_body args =
     (let body0 = [(''name'', JStr (cs_name args)), (''os_id'', JNum (cs_os_id args))];
          custom = set_configurator ''disk'' (cs_disk args)
                     (set_configurator ''ram'' (cs_ram args)
                        (set_configurator ''cpu'' (cs_cpu args) body0));
          body1 = (case cs_preset_id args of
                     None \<Rightarrow> custom
                   | Some p \<Rightarrow> if p = 0 then custom else obj_set body0 ''preset_id'' (JNum p));
          body2 = set_if_num ''bandwidth'' (cs_bandwidth args) body1;
          body3 = set_if_str ''location'' (cs_location args) body2;
          body4 = (case cs_ssh_keys_ids args of
                     None \<Rightarrow> body3
                   | Some ids \<Rightarrow> obj_set body3 ''ssh_keys_ids'' (JArr (map JNum ids)));
          body5 = (case cs_is_ddos_guard args of
                     None \<Rightarrow> body4
                   | Some b \<Rightarrow> obj_set body4 ''is_ddos_guard'' (JBool b))
      in body5)"

definition timeweb_create_server ::
  "(server request_config \<Rightarrow> js_error + server) \<Rightarrow> create_server_args
     \<Rightarrow> server api_state \<Rightarrow> (js_error + server content) \<times> server api_state" where
  "timeweb_create_server backend args st =
     (let format = format_or_markdown (cs_format args);
          body = create_server_body args
      in case makeApiRequest backend POST ''/api/v1/servers'' None (Some (JObj body)) st of
           (Inl e, st') \<Rightarrow> (Inl e, st')
         | (Inr srv, st') \<Rightarrow>
             if format = JSON then (Inr (Stringified (JRaw srv)), st')
             else (Inr (Text (''# Server Created Successfully'' @ nl @ nl @ formatServer srv)), st'))"

section \<open>tools/databases.ts\<close>

text \<open>
  The sources hold two copies of this module. The handlers modelled here are the same in
  both; the later copy registers four backup tools in addition.
\<close>

definition formatDatabase :: "database_cluster \<Rightarrow> string" where
  "formatDatabase db =
     ''## '' @ db_name db @ '' (ID: '' @ show_nat (db_id db) @ '')'' @ nl
     @ ''- **Type:** '' @ db_type db @ nl
     @ ''- **Status:** '' @ db_status db @ nl
     @ ''- **Location:** '' @ db_location db @ nl
     @ ''- **Host:** '' @ str_or (db_host db) ''N/A'' @ nl
     @ ''- **Port:** '' @ (if db_port db \<noteq> 0 then show_nat (db_port db) else ''N/A'') @ nl
     @ ''- **Admin Login:** '' @ str_or (db_admin_login db) ''N/A'' @ nl
     @ ''- **Created:** '' @ db_created_at db"

definition timeweb_list_databases ::
  "(database_cluster request_config \<Rightarrow> js_error + database_cluster list_response) \<Rightarrow> list_args
     \<Rightarrow> database_cluster api_state
     \<Rightarrow> (js_error + database_cluster content) \<times> database_cluster api_state" where
  "timeweb_list_databases backend args st =
     (let limit = page_limit args;
          offset = page_offset args;
          format = format_or_markdown (arg_format args)
      in case makeApiRequest backend GET ''/api/v1/dbs''
                (Some [(''limit'', JNum limit), (''offset'', JNum offset)]) None st of
           (Inl e, st') \<Rightarrow> (Inl e, st')
         | (Inr response, st') \<Rightarrow>
             let databases = response_items response;
                 tot = response_total response
             in if format = JSON then
                  (Inr (Stringified (JObj [(''databases'', JArr (map JRaw databases)),
                                           (''total'', JNum tot),
                                           (''limit'', JNum limit),
                                           (''offset'', JNum offset)])), st')
                else if length databases = 0 then
                  (Inr (Text ''No databases found.''), st')
                else
                  (Inr (Text (''# Database Clusters'' @ nl @ nl
                              @ buildPaginationResponse tot limit offset @ nl @ nl
                              @ join (nl @ nl) (map formatDatabase databases))), st'))"

record get_database_args =
  gd_db_id :: int
  gd_format :: "ResponseFormat option"

definition timeweb_get_database ::
  "(database_cluster request_config \<Rightarrow> js_error + database_cluster) \<Rightarrow> get_database_args
     \<Rightarrow> database_cluster api_state
     \<Rightarrow> (js_error + database_cluster content) \<times> database_cluster api_state" where
  "timeweb_get_database backend args st =
     (let dbId = gd_db_id args;
          format = format_or_markdown (gd_format args)
      in case makeApiRequest backend GET (''/api/v1/dbs/'' @ show_int dbId) None None st of
           (Inl e, st') \<Rightarrow> (Inl e, st')
         | (Inr db, st') \<Rightarrow>
             if format = JSON then (Inr (Stringified (JRaw db)), st')
             else (Inr (Text (formatDatabase db)), st'))"

record create_database_args =
  cd_name :: string
  cd_type :: string
  cd_preset_id :: int
  cd_login :: "string option"
  cd_password :: "string option"
  cd_hash_type :: "string option"
  cd_location :: "string option"
  cd_format :: "ResponseFormat option"

definition create_database_body :: "create_database_args \<Rightarrow> (string \<times> 'r json) list" where
  "create_database_body args =
     (let body0 = [(''name'', JStr (cd_name args)),
                   (''type'', JStr (cd_type args)),
                   (''preset_id'', JNum (cd_preset_id args))];
          body1 = set_if_str ''login'' (cd_login args) body0;
          body2 = set_if_str ''password'' (cd_password args) body1;
          body3 = set_if_str ''hash_type'' (cd_hash_type args) body2;
          body4 = set_if_str ''location'' (cd_location args) body3
      in body4)"

definition timeweb_create_database ::
  "(database_cluster request_config \<Rightarrow> js_error + database_cluster) \<Rightarrow> create_database_args
     \<Rightarrow> database_cluster api_state
     \<Rightarrow> (js_error + database_cluster content) \<times> database_cluster api_state" where
  "timeweb_create_database backend args st =
     (let format = format_or_markdown (cd_format args);
          body = create_database_body args
      in case makeApiRequest backend POST ''/api/v1/dbs'' None (Some (JObj body)) st of
           (Inl e, st') \<Rightarrow> (Inl e, st')
         | (Inr db, st') \<Rightarrow>
             if format = JSON then (Inr (Stringified (JRaw db)), st')
             else (Inr (Text (''# Database Created Successfully'' @ nl @ nl
                              @ formatDatabase db)), st'))"

section \<open>schemas/common.ts\<close>

text \<open>
  The schema declarations, as data: the checks chained on \<open>z.number()\<close>, an enumeration,
  and \<open>.optional()\<close>.
\<close>

datatype number_check = IsInt | Min int | Max int | Positive

datatype zod = ZNumber "number_check list" | ZEnum "string list" | ZOptional zod

definition paginationSchema :: "(string \<times> zod) list" where
  "paginationSchema =
     [(''limit'', ZOptional (ZNumber [IsInt, Min 1, Max MAX_LIMIT])),
      (''offset'', ZOptional (ZNumber [IsInt, Min 0]))]"

definition responseFormatSchema :: zod where
  "responseFormatSchema = ZOptional (ZEnum [''markdown'', ''json''])"

definition idSchema :: zod where
  "idSchema = ZNumber [IsInt, Positive]"

text \<open>The schema object given to \<open>server.tool\<close> for \<open>timeweb_list_servers\<close>.\<close>

definition timeweb_list_servers_schema :: "(string \<times> zod) list" where
  "timeweb_list_servers_schema = paginationSchema @ [(''format'', responseFormatSchema)]"

section \<open>The registry's validation\<close>

text \<open>An argument as the calling agent supplies it.\<close>

datatype raw_value = RNum rat | RStr string | RBool bool

definition check_ok :: "number_check \<Rightarrow> rat \<Rightarrow> bool" where
  "check_ok c q =
     (case c of
        IsInt \<Rightarrow> of_int \<lfloor>q\<rfloor> = q
      | Min m \<Rightarrow> of_int m \<le> q
      | Max m \<Rightarrow> q \<le> of_int m
      | Positive \<Rightarrow> 0 < q)"

fun accepts :: "zod \<Rightarrow> raw_value option \<Rightarrow> bool" where
  "accepts (ZOptional t) None = True"
| "accepts (ZOptional t) (Some v) = accepts t (Some v)"
| "accepts (ZNumber cs) (Some (RNum q)) = list_all (\<lambda>c. check_ok c q) cs"
| "accepts (ZEnum vs) (Some (RStr s)) = (s \<in> set vs)"
| "accepts t v = False"

definition invalid_fields :: "(string \<times> zod) list \<Rightarrow> (string \<times> raw_value) list \<Rightarrow> string list" where
  "invalid_fields schema raw =
     map fst (filter (\<lambda>(k, t). \<not> accepts t (map_of raw k)) schema)"

datatype 'a invocation = InvalidArgument "string list" | Handled 'a

text \<open>
  Modelled from the spec: the tool registry is the protocol server's registration
  interface, which is not part of the sources. Following sections 4.1 and 4.2 of the
  specification, an invocation is checked against the tool's parameter schema first; a
  validation failure rejects it with an \<open>InvalidArgument\<close> error that names the
  offending fields, before the handler (and so before any Transport Client call) runs;
  otherwise the handler runs on the arguments.
\<close>

definition invoke_tool ::
  "(string \<times> zod) list \<Rightarrow> ((string \<times> raw_value) list \<Rightarrow> 's \<Rightarrow> 'a \<times> 's)
     \<Rightarrow> (string \<times> raw_value) list \<Rightarrow> 's \<Rightarrow> 'a invocation \<times> 's" where
  "invoke_tool schema handler raw st =
     (case invalid_fields schema raw of
        [] \<Rightarrow> (case handler raw st of (r, st') \<Rightarrow> (Handled r, st'))
      | f # fs \<Rightarrow> (InvalidArgument (f # fs), st))"

text \<open>The arguments of a paginated list tool, read from the validated mapping.\<close>

definition int_arg :: "(string \<times> raw_value) list \<Rightarrow> string \<Rightarrow> int option" where
  "int_arg raw k = (case map_of raw k of Some (RNum q) \<Rightarrow> Some \<lfloor>q\<rfloor> | _ \<Rightarrow> None)"

definition format_arg :: "(string \<times> raw_value) list \<Rightarrow> string \<Rightarrow> ResponseFormat option" where
  "format_arg raw k =
     (case map_of raw k of
        Some (RStr s) \<Rightarrow> if s = ''json'' then Some JSON
                       else if s = ''markdown'' then Some MARKDOWN else None
      | _ \<Rightarrow> None)"

definition list_args_of :: "(string \<times> raw_value) list \<Rightarrow> list_args" where
  "list_args_of raw =
     \<lparr>arg_limit = int_arg raw ''limit'',
      arg_offset = int_arg raw ''offset'',
      arg_format = format_arg raw ''format''\<rparr>"

text \<open>The handler of \<open>timeweb_list_servers\<close> as registered: it reads its arguments from the mapping.\<close>

definition timeweb_list_servers_tool ::
  "(server request_config \<Rightarrow> js_error + server list_response) \<Rightarrow> (string \<times> raw_value) list
     \<Rightarrow> server api_state \<Rightarrow> (js_error + server content) \<times> server api_state" where
  "timeweb_list_servers_tool backend raw st = timeweb_list_servers backend (list_args_of raw) st"

section \<open>index.ts\<close>

text \<open>
  The process: the API module state, the names of the tools registered on the server,
  and the exit code once \<open>process.exit\<close> has been called.
\<close>

record 'r process =
  api :: "'r api_state"
  tools :: "string list"
  exit_code :: "nat option"

definition registerAccountTools :: "string list \<Rightarrow> string list" where
  "registerAccountTools srv =
     srv @ [''timeweb_get_account_status'', ''timeweb_get_finances'', ''timeweb_get_service_prices'']"

definition registerServerTools :: "string list \<Rightarrow> string list" where
  "registerServerTools srv =
     srv @ [''timeweb_list_servers'', ''timeweb_get_server'', ''timeweb_create_server'',
            ''timeweb_server_action'', ''timeweb_delete_server'', ''timeweb_list_os'',
            ''timeweb_list_server_presets'', ''timeweb_get_server_logs'',
            ''timeweb_get_server_statistics'']"

definition registerDatabaseTools :: "string list \<Rightarrow> string list" where
  "registerDatabaseTools srv =
     srv @ [''timeweb_list_databases'', ''timeweb_get_database'', ''timeweb_create_database'',
            ''timeweb_delete_database'', ''timeweb_list_database_presets'']"

definition registerKubernetesTools :: "string list \<Rightarrow> string list" where
  "registerKubernetesTools srv =
     srv @ [''timeweb_list_k8s_clusters'', ''timeweb_get_k8s_cluster'',
            ''timeweb_create_k8s_cluster'', ''timeweb_delete_k8s_cluster'',
            ''timeweb_get_kubeconfig'', ''timeweb_list_k8s_versions'']"

definition registerStorageTools :: "string list \<Rightarrow> string list" where
  "registerStorageTools srv =
     srv @ [''timeweb_list_s3_storages'', ''timeweb_create_s3_storage'',
            ''timeweb_delete_s3_storage'', ''timeweb_list_s3_presets'']"

definition registerDomainTools :: "string list \<Rightarrow> string list" where
  "registerDomainTools srv =
     srv @ [''timeweb_list_domains'', ''timeweb_get_domain'', ''timeweb_check_domain'',
            ''timeweb_list_dns_records'', ''timeweb_create_dns_record'',
            ''timeweb_delete_dns_record'']"

definition registerSshKeyTools :: "string list \<Rightarrow> string list" where
  "registerSshKeyTools srv =
     srv @ [''timeweb_list_ssh_keys'', ''timeweb_get_ssh_key'', ''timeweb_create_ssh_key'',
            ''timeweb_delete_ssh_key'', ''timeweb_add_ssh_key_to_server'']"

definition registerFloatingIpTools :: "string list \<Rightarrow> string list" where
  "registerFloatingIpTools srv =
     srv @ [''timeweb_list_floating_ips'', ''timeweb_get_floating_ip'',
            ''timeweb_create_floating_ip'', ''timeweb_delete_floating_ip'',
            ''timeweb_bind_floating_ip'', ''timeweb_unbind_floating_ip'']"

definition registerLocationTools :: "string list \<Rightarrow> string list" where
  "registerLocationTools srv = srv @ [''timeweb_list_locations'']"

definition registerProjectTools :: "string list \<Rightarrow> string list" where
  "registerProjectTools srv =
     srv @ [''timeweb_list_projects'', ''timeweb_get_project'', ''timeweb_create_project'',
            ''timeweb_delete_project'']"

text \<open>
  \<open>main\<close>, up to the point where the server is connected. \<open>token\<close> is the value of the
  environment variable \<open>TIMEWEB_CLOUD_TOKEN\<close>; an unset and an empty variable are both
  falsy. \<open>process.exit(1)\<close> ends the run: nothing after it happens.
\<close>

definition main :: "string option \<Rightarrow> 'r process \<Rightarrow> 'r process" where
  "main token p =
     (case token of
        None \<Rightarrow> p\<lparr>exit_code := Some 1\<rparr>
      | Some t \<Rightarrow>
          if t = [] then p\<lparr>exit_code := Some 1\<rparr>
          else
            p\<lparr>api := initializeApiClient t (api p),
              tools :=
                registerProjectTools (registerLocationTools (registerFloatingIpTools
                  (registerSshKeyTools (registerDomainTools (registerStorageTools
                    (registerKubernetesTools (registerDatabaseTools (registerServerTools
                      (registerAccountTools [])))))))))\<rparr>)"

section \<open>Example providers and descriptors\<close>

text \<open>A provider that answers every request with an error response of the given status.\<close>

definition failing_backend :: "nat \<Rightarrow> 'r request_config \<Rightarrow> js_error + 'a" where
  "failing_backend code config =
     Inl (AxiosError (Some \<lparr>status = code, data_message = NoMessage\<rparr>)
            (Some ''ERR_BAD_REQUEST'')
            (''Request failed with status code '' @ show_nat code))"

text \<open>A provider that answers every request with the given body.\<close>

definition answering_backend :: "'a \<Rightarrow> 'r request_config \<Rightarrow> js_error + 'a" where
  "answering_backend body config = Inr body"

definition started :: "'r api_state" where
  "started = initializeApiClient ''secret'' \<lparr>apiClient = None, sent = []\<rparr>"

definition web1 :: server where
  "web1 =
     \<lparr>srv_id = 101, srv_name = ''web-1'', srv_status = ''on'', srv_location = ''ru-1'',
      srv_os = Some \<lparr>os_name = ''ubuntu'', os_version = Some ''22.04''\<rparr>,
      srv_configurator = None, srv_cpu = 2, srv_ram = 2048,
      srv_main_ipv4 = Some ''192.0.2.10'', srv_bandwidth = None,
      srv_created_at = ''2024-01-01T00:00:00.000Z''\<rparr>"

definition web2 :: server where
  "web2 =
     \<lparr>srv_id = 102, srv_name = ''web-2'', srv_status = ''off'', srv_location = ''nl-1'',
      srv_os = None,
      srv_configurator = Some \<lparr>cfg_cpu = 4, cfg_ram = 1536, cfg_disk = 0\<rparr>,
      srv_cpu = 1, srv_ram = 1024,
      srv_main_ipv4 = None, srv_bandwidth = Some 1536,
      srv_created_at = ''2024-02-01T00:00:00.000Z''\<rparr>"

definition ubuntu :: os_image where
  "ubuntu = \<lparr>img_id = 1, img_name = ''Ubuntu'', img_version = Some ''22.04''\<rparr>"



section \<open>Helper facts\<close>





lemma currentPage_div: "currentPage limit offset = offset div limit + 1"
  by (simp add: currentPage_def floor_divide_of_int_eq)



lemma floor_log_k_bounds:
  "2 \<le> k \<Longrightarrow> 0 < n \<Longrightarrow> k ^ floor_log_k k n \<le> n \<and> n < k ^ (floor_log_k k n + 1)"
proof (induction k n rule: floor_log_k.induct)
  case (1 k n)
  show ?case
  proof (cases "n < k")
    case True
    with "1.prems" show ?thesis by (subst (1 2) floor_log_k.simps) simp
  next
    case False
    with "1.prems" have pos: "0 < n div k" by (simp add: div_greater_zero_iff)
    from False "1.prems" have nk: "\<not> (k < 2 \<or> n < k)" by simp
    from "1.IH" [OF nk "1.prems"(1) pos]
    have lo: "k ^ floor_log_k k (n div k) \<le> n div k"
      and hi: "n div k < k ^ (floor_log_k k (n div k) + 1)" by simp_all
    have eq: "floor_log_k k n = Suc (floor_log_k k (n div k))"
      using nk by (subst floor_log_k.simps) simp
    have "k * k ^ floor_log_k k (n div k) \<le> k * (n div k)" using lo by simp
    also have "\<dots> \<le> n" by simp
    finally have A: "k ^ floor_log_k k n \<le> n" by (simp add: eq)
    have "Suc (n div k) \<le> k ^ (floor_log_k k (n div k) + 1)" using hi by simp
    then have "k * Suc (n div k) \<le> k * k ^ (floor_log_k k (n div k) + 1)" by (rule mult_le_mono2)
    moreover have "n < k * Suc (n div k)" using "1.prems"(1)
      by (simp add: dividend_less_times_div mult.commute)
    ultimately have B: "n < k ^ (floor_log_k k n + 1)" by (simp add: eq)
    from A B show ?thesis ..
  qed
qed

lemma floor_log_k_is_floor_log:
  assumes "2 \<le> k" and "0 < n"
  shows "int (floor_log_k k n) = \<lfloor>log (real k) (real n)\<rfloor>"
proof -
  from floor_log_k_bounds [OF assms]
  have "k ^ floor_log_k k n \<le> n" and "n < k ^ (floor_log_k k n + 1)" by simp_all
  then show ?thesis using assms(1) by (simp only: floor_log_nat_eq_if)
qed

lemma toFixed2_is_rounding:
  assumes "0 < d"
  shows "int (toFixed2 b d) = \<lfloor>real b / real d * 100 + 1 / 2\<rfloor>"
proof -
  have "real b / real d * 100 + 1 / 2 = real (200 * b + d) / real (2 * d)"
    using assms by (simp add: field_simps)
  then show ?thesis
    by (simp only: toFixed2_def floor_divide_of_nat_eq)
qed


lemma formatBytes_unit_in_table:
  assumes "0 < bytes" and "bytes < 1024 ^ 5"
  shows "size_unit (floor_log_k 1024 bytes) \<in> set sizes"
proof -
  from floor_log_k_bounds [of 1024 bytes] assms(1)
  have "(1024::nat) ^ floor_log_k 1024 bytes \<le> bytes" by simp
  with assms(2) have "(1024::nat) ^ floor_log_k 1024 bytes < 1024 ^ 5" by linarith
  then have "floor_log_k 1024 bytes < 5" by (simp only: power_strict_increasing_iff) 
  then have "floor_log_k 1024 bytes < length sizes" by (simp add: sizes_def)
  then show ?thesis by (simp add: size_unit_def)
qed

lemma formatBytes_beyond_table:
  assumes "1024 ^ 5 \<le> bytes"
  shows "size_unit (floor_log_k 1024 bytes) = ''undefined''"
proof -
  from assms have pos: "0 < bytes" by (simp add: less_le_trans [of 0 "1024 ^ 5"])
  from floor_log_k_bounds [of 1024 bytes] pos
  have "bytes < 1024 ^ (floor_log_k 1024 bytes + 1)" by simp
  with assms have "(1024::nat) ^ 5 < 1024 ^ (floor_log_k 1024 bytes + 1)" by linarith
  then have "5 < floor_log_k 1024 bytes + 1" by (simp only: power_strict_increasing_iff)
  then show ?thesis by (simp add: size_unit_def sizes_def)
qed

lemma makeApiRequest_ready:
  "apiClient st = Some c \<Longrightarrow>
     makeApiRequest backend m endpoint ps d st =
       (backend \<lparr>req_method = m, url = endpoint, params = ps, data = d\<rparr>,
        st\<lparr>sent := sent st @ [(c, \<lparr>req_method = m, url = endpoint, params = ps, data = d\<rparr>)]\<rparr>)"
  by (simp add: makeApiRequest_def getApiClient_def Let_def)

lemma makeApiRequest_uninitialized:
  "apiClient st = None \<Longrightarrow>
     makeApiRequest backend m endpoint ps d st =
       (Inl (Error ''API client not initialized. Set TIMEWEB_CLOUD_TOKEN environment variable.''), st)"
  by (simp add: makeApiRequest_def getApiClient_def)

lemma started_client:
  "apiClient (started :: 'r api_state) =
     Some \<lparr>baseURL = API_BASE_URL, timeout = REQUEST_TIMEOUT,
           headers = [(''Content-Type'', ''application/json''),
                      (''Accept'', ''application/json''),
                      (''Authorization'', ''Bearer secret'')]\<rparr>"
  by (simp add: started_def initializeApiClient_def)

lemma started_sent: "sent (started :: 'r api_state) = []"
  by (simp add: started_def initializeApiClient_def)









lemma limit_out_of_range_not_accepted:
  "q < 1 \<or> 100 < q \<Longrightarrow>
     \<not> accepts (ZOptional (ZNumber [IsInt, Min 1, Max MAX_LIMIT])) (Some (RNum q))"
  by (auto simp: check_ok_def MAX_LIMIT_def)

lemma in_range_limit_accepted:
  "invalid_fields timeweb_list_servers_schema [(''limit'', RNum 100), (''format'', RStr ''json'')] = []"
  by (simp add: invalid_fields_def timeweb_list_servers_schema_def paginationSchema_def
        responseFormatSchema_def check_ok_def MAX_LIMIT_def)

lemma sent_after_create_database:
  "apiClient st = Some c \<Longrightarrow>
     sent (snd (timeweb_create_database backend args st)) =
       sent st @ [(c, \<lparr>req_method = POST, url = ''/api/v1/dbs'', params = None,
                       data = Some (JObj (create_database_body args))\<rparr>)]"
  by (simp add: timeweb_create_database_def Let_def makeApiRequest_ready split: sum.splits)

lemma sent_after_create_server:
  "apiClient st = Some c \<Longrightarrow>
     sent (snd (timeweb_create_server backend args st)) =
       sent st @ [(c, \<lparr>req_method = POST, url = ''/api/v1/servers'', params = None,
                       data = Some (JObj (create_server_body args))\<rparr>)]"
  by (simp add: timeweb_create_server_def Let_def makeApiRequest_ready split: sum.splits)

lemma failing_backend_fails:
  "failing_backend 404 config =
     Inl (AxiosError (Some \<lparr>status = 404, data_message = NoMessage\<rparr>)
            (Some ''ERR_BAD_REQUEST'') ''Request failed with status code 404'')"
  by (simp add: failing_backend_def show_nat.simps)

lemma list_servers_failure:
  assumes "apiClient st = Some c" and "\<And>config. backend config = Inl e"
  shows "fst (timeweb_list_servers backend args st) = Inl e"
  using assms by (simp add: timeweb_list_servers_def makeApiRequest_ready Let_def)

lemma create_server_failure:
  assumes "apiClient st = Some c" and "\<And>config. backend config = Inl e"
  shows "fst (timeweb_create_server backend args st) = Inl e"
  using assms by (simp add: timeweb_create_server_def makeApiRequest_ready Let_def)

lemma list_os_failure:
  assumes "apiClient st = Some c" and "\<And>config. backend config = Inl e"
  shows "fst (timeweb_list_os backend args st) = Inl e"
  using assms by (simp add: timeweb_list_os_def makeApiRequest_ready Let_def)

lemma list_databases_failure:
  assumes "apiClient st = Some c" and "\<And>config. backend config = Inl e"
  shows "fst (timeweb_list_databases backend args st) = Inl e"
  using assms by (simp add: timeweb_list_databases_def makeApiRequest_ready Let_def)

lemma create_database_failure:
  assumes "apiClient st = Some c" and "\<And>config. backend config = Inl e"
  shows "fst (timeweb_create_database backend args st) = Inl e"
  using assms by (simp add: timeweb_create_database_def makeApiRequest_ready Let_def)

lemma get_database_failure:
  assumes "apiClient st = Some c" and "\<And>config. backend config = Inl e"
  shows "timeweb_get_database backend args st =
           (Inl e,
            st\<lparr>sent := sent st @ [(c, \<lparr>req_method = GET,
                                        url = ''/api/v1/dbs/'' @ show_int (gd_db_id args),
                                        params = None, data = None\<rparr>)]\<rparr>)"
  using assms by (simp add: timeweb_get_database_def makeApiRequest_ready Let_def)


lemma formatBytes_2GB: "formatBytes 2147483648 = ''2 GB''"
proof -
  have l: "floor_log_k 1024 2147483648 = 3" by (simp add: floor_log_k.simps)
  show ?thesis
    by (simp add: formatBytes_def l toFixed2_def show_hundredths_def show_nat.simps
          size_unit_def sizes_def Let_def)
qed

lemma formatServer_web1:
  "formatServer web1 =
     ''## web-1 (ID: 101)'' @ nl
     @ ''- **Status:** on'' @ nl
     @ ''- **Location:** ru-1'' @ nl
     @ ''- **OS:** ubuntu 22.04'' @ nl
     @ ''- **CPU:** 2 cores'' @ nl
     @ ''- **RAM:** 2 GB'' @ nl
     @ ''- **Disk:** N/A'' @ nl
     @ ''- **Main IP:** 192.0.2.10'' @ nl
     @ ''- **Bandwidth:** N/A'' @ nl
     @ ''- **Created:** 2024-01-01T00:00:00.000Z''"
proof -
  have n: "show_nat 101 = ''101''" "show_nat 2 = ''2''" by (simp_all add: show_nat.simps)
  show ?thesis
    unfolding formatServer_def web1_def
    by (simp add: n formatBytes_2GB str_or_def or_else_def nl_def)
qed

section \<open>Properties of the error translator\<close>

text \<open>
  C7. The message of a failed response depends on its status code only through the fixed
  table: a response with status 404 gives the "Resource not found" message (followed by
  the provider's text, or by the default hint when there is none), and a response with
  status 429 gives exactly the rate-limit message. The function takes the failure alone,
  so the invoking tool cannot influence it.
\<close>

theorem handleApiError_by_status:
  "(status r = 404 \<longrightarrow>
      handleApiError (AxiosError (Some r) code msg) =
        ''Error: Resource not found. ''
          @ or_else (response_message (data_message r)) ''Please check the ID is correct.'')
   \<and> (status r = 429 \<longrightarrow>
      handleApiError (AxiosError (Some r) code msg) =
        ''Error: Rate limit exceeded. Please wait before making more requests.'')"
  by simp

theorem handleApiError_by_status_witness:
  "handleApiError (AxiosError (Some \<lparr>status = 404, data_message = NoMessage\<rparr>) None ''Request failed with status code 404'')
     = ''Error: Resource not found. Please check the ID is correct.''
   \<and> handleApiError (AxiosError (Some \<lparr>status = 429, data_message = MessageString ''slow down''\<rparr>) None ''Request failed with status code 429'')
     = ''Error: Rate limit exceeded. Please wait before making more requests.''"
  using handleApiError_by_status [of "\<lparr>status = 404, data_message = NoMessage\<rparr>" None "''Request failed with status code 404''"]
        handleApiError_by_status [of "\<lparr>status = 429, data_message = MessageString ''slow down''\<rparr>" None "''Request failed with status code 429''"]
  by (simp add: or_else_def response_message_def)

section \<open>Properties of the value formatters\<close>



text \<open>
  C4. \<open>formatBytes\<close> gives "0 B" for 0, "1.5 KB" for 1536 and "1 GB" for 1073741824.
  The unit is \<open>sizes[i]\<close> with an index that is not clamped to the table: for two
  pebibytes (\<open>2 * 1024^5\<close> bytes) the index is 5, past "TB", and the result is
  "2 undefined".
\<close>

theorem formatBytes_examples:
  "formatBytes 0 = ''0 B''
   \<and> formatBytes 1536 = ''1.5 KB''
   \<and> formatBytes 1073741824 = ''1 GB''
   \<and> floor_log_k 1024 2251799813685248 = 5
   \<and> formatBytes 2251799813685248 = ''2 undefined''"
proof -
  have kb: "floor_log_k 1024 1536 = 1"
    by (simp add: floor_log_k.simps)
  have gb: "floor_log_k 1024 1073741824 = 3"
    by (simp add: floor_log_k.simps)
  have pb: "floor_log_k 1024 2251799813685248 = 5"
    by (simp add: floor_log_k.simps)
  have "formatBytes 0 = ''0 B''"
    by (simp add: formatBytes_def)
  moreover have "formatBytes 1536 = ''1.5 KB''"
    by (simp add: formatBytes_def kb toFixed2_def show_hundredths_def show_nat.simps
          size_unit_def sizes_def Let_def)
  moreover have "formatBytes 1073741824 = ''1 GB''"
    by (simp add: formatBytes_def gb toFixed2_def show_hundredths_def show_nat.simps
          size_unit_def sizes_def Let_def)
  moreover have "formatBytes 2251799813685248 = ''2 undefined''"
    by (simp add: formatBytes_def pb toFixed2_def show_hundredths_def show_nat.simps
          size_unit_def sizes_def Let_def)
  ultimately show ?thesis using pb by simp
qed

section \<open>Properties of the client and of the start-up\<close>

text \<open>
  C8. While the client singleton is unset, \<open>makeApiRequest\<close> fails with the
  "API client not initialized" error and leaves the state as it was, so no request is
  issued; a call that does issue a request implies an initialized client. When the token
  variable is unset or empty, \<open>main\<close> exits with code 1 with the tool list and the API
  state untouched; with a token, the client it creates carries that token as its bearer
  authorization header.
\<close>

theorem no_request_without_client:
  "(apiClient st = None \<longrightarrow>
      makeApiRequest backend m endpoint ps d st =
        (Inl (Error ''API client not initialized. Set TIMEWEB_CLOUD_TOKEN environment variable.''), st))
   \<and> (sent (snd (makeApiRequest backend m endpoint ps d st)) \<noteq> sent st \<longrightarrow> apiClient st \<noteq> None)
   \<and> (token = None \<or> token = Some [] \<longrightarrow>
        main token p = p\<lparr>exit_code := Some 1\<rparr>
        \<and> tools (main token p) = tools p
        \<and> api (main token p) = api p)
   \<and> (token = Some t \<and> t \<noteq> [] \<longrightarrow>
        exit_code (main token p) = exit_code p
        \<and> map_option headers (apiClient (api (main token p)))
            = Some [(''Content-Type'', ''application/json''),
                    (''Accept'', ''application/json''),
                    (''Authorization'', ''Bearer '' @ t)])"
  by (cases "apiClient st") (auto simp: makeApiRequest_uninitialized main_def initializeApiClient_def)

theorem no_request_without_client_witness:
  "makeApiRequest (answering_backend web1) GET ''/api/v1/servers/101'' None None
       (\<lparr>apiClient = None, sent = []\<rparr> :: server api_state) =
     (Inl (Error ''API client not initialized. Set TIMEWEB_CLOUD_TOKEN environment variable.''),
      \<lparr>apiClient = None, sent = []\<rparr>)
   \<and> main None \<lparr>api = (\<lparr>apiClient = None, sent = []\<rparr> :: server api_state), tools = [], exit_code = None\<rparr>
       = \<lparr>api = \<lparr>apiClient = None, sent = []\<rparr>, tools = [], exit_code = Some 1\<rparr>
   \<and> map_option headers (apiClient (api (main (Some ''secret'')
         \<lparr>api = (\<lparr>apiClient = None, sent = []\<rparr> :: server api_state), tools = [], exit_code = None\<rparr>)))
       = Some [(''Content-Type'', ''application/json''),
               (''Accept'', ''application/json''),
               (''Authorization'', ''Bearer secret'')]"
  using no_request_without_client [of "\<lparr>apiClient = None, sent = []\<rparr> :: server api_state"
          "answering_backend web1" GET
          "''/api/v1/servers/101''" None None None
          "\<lparr>api = (\<lparr>apiClient = None, sent = []\<rparr> :: server api_state), tools = [], exit_code = None\<rparr>" "''x''"]
        no_request_without_client [of "\<lparr>apiClient = None, sent = []\<rparr> :: server api_state"
          "answering_backend web1" GET
          "''/api/v1/servers/101''" None None "Some ''secret''"
          "\<lparr>api = (\<lparr>apiClient = None, sent = []\<rparr> :: server api_state), tools = [], exit_code = None\<rparr>" "''secret''"]
  by simp

section \<open>Properties of the tool handlers\<close>

text \<open>
  C1 (as amended). When the provider call of a tool handler fails, the handler does not
  catch the failure: the invocation is rejected with the transport failure itself and no
  text is produced. This holds for \<open>timeweb_get_database\<close> (after exactly one request)
  and likewise for the list and create handlers of databases, servers and OS images. The
  error translator maps a 404 response without provider message to
  "Error: Resource not found. Please check the ID is correct.", but no handler calls it.
\<close>

theorem tool_failure_propagates:
  assumes "apiClient st = Some c" and "apiClient st' = Some c'" and "apiClient st'' = Some c''"
    and "\<And>config. get_db config = Inl e"
    and "\<And>config. list_dbs config = Inl e"
    and "\<And>config. create_db config = Inl e"
    and "\<And>config. list_srvs config = Inl e"
    and "\<And>config. create_srv config = Inl e"
    and "\<And>config. list_imgs config = Inl e"
  shows "timeweb_get_database get_db gargs st =
           (Inl e,
            st\<lparr>sent := sent st @ [(c, \<lparr>req_method = GET,
                                        url = ''/api/v1/dbs/'' @ show_int (gd_db_id gargs),
                                        params = None, data = None\<rparr>)]\<rparr>)
       \<and> fst (timeweb_list_databases list_dbs largs st) = Inl e
       \<and> fst (timeweb_create_database create_db cargs st) = Inl e
       \<and> fst (timeweb_list_servers list_srvs largs st') = Inl e
       \<and> fst (timeweb_create_server create_srv sargs st') = Inl e
       \<and> fst (timeweb_list_os list_imgs fargs st'') = Inl e
       \<and> handleApiError (AxiosError (Some \<lparr>status = 404, data_message = NoMessage\<rparr>) code msg)
           = ''Error: Resource not found. Please check the ID is correct.''"
proof -
  have "handleApiError (AxiosError (Some \<lparr>status = 404, data_message = NoMessage\<rparr>) code msg)
           = ''Error: Resource not found. Please check the ID is correct.''"
    by (simp add: or_else_def response_message_def)
  then show ?thesis
    by (intro conjI get_database_failure [OF assms(1,4)] list_databases_failure [OF assms(1,5)]
          create_database_failure [OF assms(1,6)] list_servers_failure [OF assms(2,7)]
          create_server_failure [OF assms(2,8)] list_os_failure [OF assms(3,9)])
qed

theorem tool_failure_propagates_witness:
  "timeweb_get_database (failing_backend 404) \<lparr>gd_db_id = 7, gd_format = None\<rparr> started =
     (Inl (AxiosError (Some \<lparr>status = 404, data_message = NoMessage\<rparr>)
             (Some ''ERR_BAD_REQUEST'') ''Request failed with status code 404''),
      started\<lparr>sent := [(\<lparr>baseURL = API_BASE_URL, timeout = REQUEST_TIMEOUT,
           headers = [(''Content-Type'', ''application/json''),
                      (''Accept'', ''application/json''),
                      (''Authorization'', ''Bearer secret'')]\<rparr>,
           \<lparr>req_method = GET, url = ''/api/v1/dbs/7'', params = None, data = None\<rparr>)]\<rparr>)
   \<and> fst (timeweb_list_servers (failing_backend 404)
            \<lparr>arg_limit = None, arg_offset = None, arg_format = None\<rparr> started)
       = Inl (AxiosError (Some \<lparr>status = 404, data_message = NoMessage\<rparr>)
               (Some ''ERR_BAD_REQUEST'') ''Request failed with status code 404'')"
proof -
  have s7: "show_int 7 = ''7''" by (simp add: show_int_def show_nat.simps)
  note th = tool_failure_propagates
      [where st = started and st' = started and st'' = started
         and get_db = "failing_backend 404" and list_dbs = "failing_backend 404"
         and create_db = "failing_backend 404" and list_srvs = "failing_backend 404"
         and create_srv = "failing_backend 404" and list_imgs = "failing_backend 404"
         and gargs = "\<lparr>gd_db_id = 7, gd_format = None\<rparr>"
         and largs = "\<lparr>arg_limit = None, arg_offset = None, arg_format = None\<rparr>",
       OF started_client started_client started_client
          failing_backend_fails failing_backend_fails failing_backend_fails
          failing_backend_fails failing_backend_fails failing_backend_fails]
  from th [THEN conjunct1]
       th [THEN conjunct2, THEN conjunct2, THEN conjunct2, THEN conjunct1]
  show ?thesis by (simp add: s7 started_sent)
qed

text \<open>
  C1 as stated fails: against a provider that answers 404, \<open>timeweb_get_database\<close> does
  not return the translated message as its result; it throws the transport failure.
\<close>

theorem get_database_404_counterexample:
  "fst (timeweb_get_database (failing_backend 404) \<lparr>gd_db_id = 7, gd_format = None\<rparr> started)
     \<noteq> Inr (Text ''Error: Resource not found. Please check the ID is correct.'')
   \<and> fst (timeweb_get_database (failing_backend 404) \<lparr>gd_db_id = 7, gd_format = None\<rparr> started)
     = Inl (AxiosError (Some \<lparr>status = 404, data_message = NoMessage\<rparr>)
             (Some ''ERR_BAD_REQUEST'') ''Request failed with status code 404'')"
  by (simp add: get_database_failure [OF started_client failing_backend_fails])







text \<open>
  C5. A tool whose schema includes the pagination fragment, invoked through the registry
  with a \<open>limit\<close> below 1 or above 100 (0 and 101 in particular), is rejected with an
  \<open>InvalidArgument\<close> error whose field list names \<open>limit\<close>; the handler does not run and
  the state, with its record of outbound requests, is unchanged.
\<close>

theorem out_of_range_limit_rejected:
  assumes "schema = pre @ paginationSchema @ post"
    and "map_of raw ''limit'' = Some (RNum q)"
    and "q < 1 \<or> 100 < q"
  shows "invoke_tool schema handler raw st = (InvalidArgument (invalid_fields schema raw), st)
         \<and> ''limit'' \<in> set (invalid_fields schema raw)"
proof -
  have "(''limit'', ZOptional (ZNumber [IsInt, Min 1, Max MAX_LIMIT])) \<in> set schema"
    by (simp add: assms(1) paginationSchema_def)
  moreover have "\<not> accepts (ZOptional (ZNumber [IsInt, Min 1, Max MAX_LIMIT])) (map_of raw ''limit'')"
    using limit_out_of_range_not_accepted [OF assms(3)] by (simp add: assms(2))
  ultimately have mem: "''limit'' \<in> set (invalid_fields schema raw)"
    by (force simp: invalid_fields_def)
  then obtain f fs where "invalid_fields schema raw = f # fs"
    by (cases "invalid_fields schema raw") auto
  then have "invoke_tool schema handler raw st = (InvalidArgument (invalid_fields schema raw), st)"
    by (simp add: invoke_tool_def)
  then show ?thesis using mem by (rule conjI)
qed

theorem out_of_range_limit_rejected_witness:
  "invoke_tool timeweb_list_servers_schema
       (timeweb_list_servers_tool (answering_backend \<lparr>collection = Some [web1, web2], meta_total = Some 2\<rparr>))
       [(''limit'', RNum 0)] started
     = (InvalidArgument [''limit''], started)
   \<and> invoke_tool timeweb_list_servers_schema
       (timeweb_list_servers_tool (answering_backend \<lparr>collection = Some [web1, web2], meta_total = Some 2\<rparr>))
       [(''limit'', RNum 101)] started
     = (InvalidArgument [''limit''], started)"
proof -
  have s: "timeweb_list_servers_schema = [] @ paginationSchema @ [(''format'', responseFormatSchema)]"
    by (simp add: timeweb_list_servers_schema_def)
  have z: "map_of [(''limit'', RNum 0)] ''limit'' = Some (RNum 0)" "(0::rat) < 1 \<or> 100 < (0::rat)"
    and h: "map_of [(''limit'', RNum 101)] ''limit'' = Some (RNum 101)" "(101::rat) < 1 \<or> 100 < (101::rat)"
    by simp_all
  have iz: "invalid_fields timeweb_list_servers_schema [(''limit'', RNum 0)] = [''limit'']"
    and ih: "invalid_fields timeweb_list_servers_schema [(''limit'', RNum 101)] = [''limit'']"
    by (simp_all add: invalid_fields_def timeweb_list_servers_schema_def paginationSchema_def
          responseFormatSchema_def check_ok_def MAX_LIMIT_def)
  from out_of_range_limit_rejected
         [where handler = "timeweb_list_servers_tool (answering_backend \<lparr>collection = Some [web1, web2], meta_total = Some 2\<rparr>)"
            and st = started, OF s z, THEN conjunct1]
       out_of_range_limit_rejected
         [where handler = "timeweb_list_servers_tool (answering_backend \<lparr>collection = Some [web1, web2], meta_total = Some 2\<rparr>)"
            and st = started, OF s h, THEN conjunct1]
  show ?thesis by (simp add: iz ih)
qed

text \<open>
  C6. With only the required arguments supplied, the body assembled by
  \<open>timeweb_create_database\<close> has exactly the members \<open>name\<close>, \<open>type\<close> and
  \<open>preset_id\<close>, and the body assembled by \<open>timeweb_create_server\<close> exactly \<open>name\<close> and
  \<open>os_id\<close>; no optional member appears, neither as \<open>null\<close> nor empty. This body is the
  \<open>data\<close> of the single POST request that the handler issues.
\<close>

theorem create_required_only_body:
  "create_database_body
       \<lparr>cd_name = n, cd_type = t, cd_preset_id = p, cd_login = None, cd_password = None,
        cd_hash_type = None, cd_location = None, cd_format = f\<rparr>
     = [(''name'', JStr n), (''type'', JStr t), (''preset_id'', JNum p)]
   \<and> create_server_body
       \<lparr>cs_name = n', cs_os_id = os, cs_preset_id = None, cs_cpu = None, cs_ram = None,
        cs_disk = None, cs_bandwidth = None, cs_location = None, cs_ssh_keys_ids = None,
        cs_is_ddos_guard = None, cs_format = f'\<rparr>
     = [(''name'', JStr n'), (''os_id'', JNum os)]
   \<and> (apiClient st = Some c \<longrightarrow>
        sent (snd (timeweb_create_database backend
               \<lparr>cd_name = n, cd_type = t, cd_preset_id = p, cd_login = None, cd_password = None,
                cd_hash_type = None, cd_location = None, cd_format = f\<rparr> st))
          = sent st @ [(c, \<lparr>req_method = POST, url = ''/api/v1/dbs'', params = None,
                          data = Some (JObj [(''name'', JStr n), (''type'', JStr t),
                                             (''preset_id'', JNum p)])\<rparr>)])
   \<and> (apiClient st' = Some c' \<longrightarrow>
        sent (snd (timeweb_create_server backend'
               \<lparr>cs_name = n', cs_os_id = os, cs_preset_id = None, cs_cpu = None, cs_ram = None,
                cs_disk = None, cs_bandwidth = None, cs_location = None, cs_ssh_keys_ids = None,
                cs_is_ddos_guard = None, cs_format = f'\<rparr> st'))
          = sent st' @ [(c', \<lparr>req_method = POST, url = ''/api/v1/servers'', params = None,
                           data = Some (JObj [(''name'', JStr n'), (''os_id'', JNum os)])\<rparr>)])"
proof -
  have db: "create_database_body
       \<lparr>cd_name = n, cd_type = t, cd_preset_id = p, cd_login = None, cd_password = None,
        cd_hash_type = None, cd_location = None, cd_format = f\<rparr>
     = ([(''name'', JStr n), (''type'', JStr t), (''preset_id'', JNum p)] :: (string \<times> 'x json) list)"
    for f
    by (simp add: create_database_body_def set_if_str_def)
  have srv: "create_server_body
       \<lparr>cs_name = n', cs_os_id = os, cs_preset_id = None, cs_cpu = None, cs_ram = None,
        cs_disk = None, cs_bandwidth = None, cs_location = None, cs_ssh_keys_ids = None,
        cs_is_ddos_guard = None, cs_format = f'\<rparr>
     = ([(''name'', JStr n'), (''os_id'', JNum os)] :: (string \<times> 'y json) list)"
    by (simp add: create_server_body_def set_if_str_def set_if_num_def set_configurator_def)
  show ?thesis
    by (simp add: db srv sent_after_create_database sent_after_create_server)
qed

theorem create_required_only_body_witness:
  "sent (snd (timeweb_create_database (failing_backend 500)
           \<lparr>cd_name = ''orders'', cd_type = ''postgres'', cd_preset_id = 357, cd_login = None,
            cd_password = None, cd_hash_type = None, cd_location = None, cd_format = None\<rparr>
           started))
     = [(\<lparr>baseURL = API_BASE_URL, timeout = REQUEST_TIMEOUT,
           headers = [(''Content-Type'', ''application/json''),
                      (''Accept'', ''application/json''),
                      (''Authorization'', ''Bearer secret'')]\<rparr>,
         \<lparr>req_method = POST, url = ''/api/v1/dbs'', params = None,
          data = Some (JObj [(''name'', JStr ''orders''), (''type'', JStr ''postgres''),
                             (''preset_id'', JNum 357)])\<rparr>)]
   \<and> sent (snd (timeweb_create_server (failing_backend 500)
           \<lparr>cs_name = ''web-3'', cs_os_id = 79, cs_preset_id = None, cs_cpu = None, cs_ram = None,
            cs_disk = None, cs_bandwidth = None, cs_location = None, cs_ssh_keys_ids = None,
            cs_is_ddos_guard = None, cs_format = None\<rparr>
           started))
     = [(\<lparr>baseURL = API_BASE_URL, timeout = REQUEST_TIMEOUT,
           headers = [(''Content-Type'', ''application/json''),
                      (''Accept'', ''application/json''),
                      (''Authorization'', ''Bearer secret'')]\<rparr>,
         \<lparr>req_method = POST, url = ''/api/v1/servers'', params = None,
          data = Some (JObj [(''name'', JStr ''web-3''), (''os_id'', JNum 79)])\<rparr>)]"
proof -
  note th = create_required_only_body
      [where st = started and st' = started and backend = "failing_backend 500"
         and backend' = "failing_backend 500" and n = "''orders''" and t = "''postgres''"
         and p = 357 and f = None and n' = "''web-3''" and os = 79 and f' = None]
  from th [THEN conjunct2, THEN conjunct2, THEN conjunct1, THEN mp, OF started_client]
       th [THEN conjunct2, THEN conjunct2, THEN conjunct2, THEN mp, OF started_client]
  show ?thesis by (simp add: started_sent)
qed

text \<open>
  C10. An optional argument guarded by a truthiness check and supplied with a falsy value
  (the empty string, or 0) leaves the body exactly as if the argument had not been
  supplied: \<open>login\<close>, \<open>password\<close>, \<open>hash_type\<close> and \<open>location\<close> of
  \<open>timeweb_create_database\<close>; \<open>bandwidth\<close>, \<open>location\<close>, \<open>preset_id\<close>, \<open>cpu\<close>, \<open>ram\<close>
  and \<open>disk\<close> of \<open>timeweb_create_server\<close>.
\<close>

theorem falsy_optional_omitted:
  "create_database_body (a\<lparr>cd_login := Some []\<rparr>) = create_database_body (a\<lparr>cd_login := None\<rparr>)
   \<and> create_database_body (a\<lparr>cd_password := Some []\<rparr>) = create_database_body (a\<lparr>cd_password := None\<rparr>)
   \<and> create_database_body (a\<lparr>cd_hash_type := Some []\<rparr>) = create_database_body (a\<lparr>cd_hash_type := None\<rparr>)
   \<and> create_database_body (a\<lparr>cd_location := Some []\<rparr>) = create_database_body (a\<lparr>cd_location := None\<rparr>)
   \<and> create_server_body (b\<lparr>cs_bandwidth := Some 0\<rparr>) = create_server_body (b\<lparr>cs_bandwidth := None\<rparr>)
   \<and> create_server_body (b\<lparr>cs_location := Some []\<rparr>) = create_server_body (b\<lparr>cs_location := None\<rparr>)
   \<and> create_server_body (b\<lparr>cs_preset_id := Some 0\<rparr>) = create_server_body (b\<lparr>cs_preset_id := None\<rparr>)
   \<and> create_server_body (b\<lparr>cs_cpu := Some 0\<rparr>) = create_server_body (b\<lparr>cs_cpu := None\<rparr>)
   \<and> create_server_body (b\<lparr>cs_ram := Some 0\<rparr>) = create_server_body (b\<lparr>cs_ram := None\<rparr>)
   \<and> create_server_body (b\<lparr>cs_disk := Some 0\<rparr>) = create_server_body (b\<lparr>cs_disk := None\<rparr>)"
  by (simp add: create_database_body_def create_server_body_def set_if_str_def set_if_num_def
        set_configurator_def)

end
